theory Spec2Isabelle
  imports Main "HOL-Library.Word"
begin

unbundle bit_operations_syntax

section \<open>The settings header \<open>wlan_settings.h\<close>\<close>

text \<open>
  The header consists of five preprocessor macros (four string literals and one integer
  literal) and three \<open>const IPAddress\<close> objects. Each of them becomes a HOL constant of
  the same name, with the value written in the source.
\<close>

subsection \<open>Addresses\<close>

text \<open>
  \<open>IPAddress\<close> is the Arduino core's address class. The header uses its constructor
  of four \<open>uint8_t\<close> octets, \<open>IPAddress(first, second, third, fourth)\<close>; the class
  stores them as four bytes in that order. An octet is therefore an \<open>8 word\<close>.
\<close>

datatype IPAddress =
  IPAddress (first_octet: "8 word") (second_octet: "8 word")
            (third_octet: "8 word") (fourth_octet: "8 word")

text \<open>The octets of an address, in order, read as unsigned integers.\<close>

definition octets :: "IPAddress \<Rightarrow> int list" where
  "octets ip = map uint [first_octet ip, second_octet ip, third_octet ip, fourth_octet ip]"

definition valid_octet :: "int \<Rightarrow> bool" where
  "valid_octet n = (0 \<le> n \<and> n \<le> 255)"

definition valid_ip :: "IPAddress \<Rightarrow> bool" where
  "valid_ip ip = (length (octets ip) = 4 \<and> list_all valid_octet (octets ip))"

subsection \<open>The constants\<close>

text \<open>\<^verbatim>\<open>#define OTA_PASSWORD "PROVIDE YOUR PASSWORD FOR OTA UPDATE"\<close>\<close>

definition OTA_PASSWORD :: string where
  "OTA_PASSWORD = ''PROVIDE YOUR PASSWORD FOR OTA UPDATE''"

text \<open>
  Router settings (the source notes that they can be ignored if OTA is disabled):
  \<^verbatim>\<open>#define ROUTER_SSID "SSID OF YOUR ROUTER"\<close>,
  \<^verbatim>\<open>#define ROUTER_PASSWD "PASSWORD OF YOUR ROUTER"\<close>,
  \<^verbatim>\<open>#define PRODUCT_NAME "LedMatrixEffectBox_"\<close>.
\<close>

definition ROUTER_SSID :: string where
  "ROUTER_SSID = ''SSID OF YOUR ROUTER''"

definition ROUTER_PASSWD :: string where
  "ROUTER_PASSWD = ''PASSWORD OF YOUR ROUTER''"

definition PRODUCT_NAME :: string where
  "PRODUCT_NAME = ''LedMatrixEffectBox_''"

text \<open>
  \<^verbatim>\<open>#define MAX_NUM_OF_WIFI_SSID_TRIAL_TIMEOUT_IN_500MS 10 // 6 sec\<close>:
  a count of units of 500 milliseconds. The literal is a C \<open>int\<close>; nothing below comes
  near its bounds, so it is an \<open>int\<close> here.
\<close>

definition MAX_NUM_OF_WIFI_SSID_TRIAL_TIMEOUT_IN_500MS :: int where
  "MAX_NUM_OF_WIFI_SSID_TRIAL_TIMEOUT_IN_500MS = 10"

text \<open>The length of one unit, in milliseconds, as the macro's name gives it.\<close>

definition trial_unit_ms :: int where
  "trial_unit_ms = 500"

definition wifi_trial_timeout_ms :: int where
  "wifi_trial_timeout_ms = MAX_NUM_OF_WIFI_SSID_TRIAL_TIMEOUT_IN_500MS * trial_unit_ms"

text \<open>
  The comment on the macro's line, \<open>// 6 sec\<close>, in milliseconds. It is the only
  documentation of the total wait in the source.
\<close>

definition annotated_timeout_ms :: int where
  "annotated_timeout_ms = 6 * 1000"

text \<open>
  \<^verbatim>\<open>const IPAddress G_ownStaticIP = IPAddress(192, 168, 8, 205);\<close>
  \<^verbatim>\<open>const IPAddress G_gatewayIP   = IPAddress(192, 168, 8, 1);\<close>
  \<^verbatim>\<open>const IPAddress G_maskIP      = IPAddress(255, 255, 0, 0);\<close>
\<close>

definition G_ownStaticIP :: IPAddress where
  "G_ownStaticIP = IPAddress 192 168 8 205"

definition G_gatewayIP :: IPAddress where
  "G_gatewayIP = IPAddress 192 168 8 1"

definition G_maskIP :: IPAddress where
  "G_maskIP = IPAddress 255 255 0 0"

subsection \<open>The header as a list of definitions\<close>

text \<open>
  What a symbol of the header stands for: a string literal, an integer literal or an
  address object.
\<close>

datatype setting = StringLiteral string | IntLiteral int | Address IPAddress

datatype setting_kind = KString | KInteger | KAddress

fun kind_of :: "setting \<Rightarrow> setting_kind" where
  "kind_of (StringLiteral s) = KString"
| "kind_of (IntLiteral n) = KInteger"
| "kind_of (Address ip) = KAddress"

text \<open>Every symbol the header defines, in the order of the source lines, with its value.\<close>

definition wlan_settings_h :: "(string \<times> setting) list" where
  "wlan_settings_h =
    [(''OTA_PASSWORD'', StringLiteral OTA_PASSWORD),
     (''ROUTER_SSID'', StringLiteral ROUTER_SSID),
     (''ROUTER_PASSWD'', StringLiteral ROUTER_PASSWD),
     (''PRODUCT_NAME'', StringLiteral PRODUCT_NAME),
     (''MAX_NUM_OF_WIFI_SSID_TRIAL_TIMEOUT_IN_500MS'',
        IntLiteral MAX_NUM_OF_WIFI_SSID_TRIAL_TIMEOUT_IN_500MS),
     (''G_ownStaticIP'', Address G_ownStaticIP),
     (''G_gatewayIP'', Address G_gatewayIP),
     (''G_maskIP'', Address G_maskIP)]"

subsection \<open>Addresses as 32-bit values\<close>

text \<open>
  An address as one 32-bit value in network byte order: the first octet is the most
  significant byte. This is the view in which a subnet mask is a run of one bits
  followed by zero bits.
\<close>

definition network_order_u32 :: "IPAddress \<Rightarrow> 32 word" where
  "network_order_u32 ip =
     push_bit 24 (ucast (first_octet ip)) OR push_bit 16 (ucast (second_octet ip)) OR
     push_bit 8 (ucast (third_octet ip)) OR ucast (fourth_octet ip)"

text \<open>The mask of prefix length \<open>n\<close>: \<open>n\<close> one bits, then \<open>32 - n\<close> zero bits.\<close>

definition prefix_mask :: "nat \<Rightarrow> 32 word" where
  "prefix_mask n = push_bit (32 - n) (mask n)"

definition contiguous_netmask :: "32 word \<Rightarrow> bool" where
  "contiguous_netmask m = list_ex (\<lambda>n. m = prefix_mask n) [0..<33]"

text \<open>The network part of an address under a mask: the octet-wise bitwise AND.\<close>

definition network_of :: "IPAddress \<Rightarrow> IPAddress \<Rightarrow> IPAddress" where
  "network_of ip m =
     IPAddress (first_octet ip AND first_octet m) (second_octet ip AND second_octet m)
               (third_octet ip AND third_octet m) (fourth_octet ip AND fourth_octet m)"

section \<open>The configuration structure and its callers\<close>

text \<open>
  Modelled from the spec: the header itself declares no structure; the one a loader
  would hand to the callers is taken from the spec's words, "a single configuration
  structure with the fields enumerated in section 3, populated at compile time". The
  fields are those of the spec's data model table, in its order.
\<close>

record config =
  ota_password :: string
  router_ssid :: string
  router_password :: string
  product_name :: string
  wifi_retry_timeout_count :: int
  static_ip_address :: IPAddress
  gateway_ip_address :: IPAddress
  subnet_mask :: IPAddress

text \<open>
  Modelled from the spec: the structure "populated at compile time", each field from the
  header constant the data model table describes.
\<close>

definition wlan_config :: config where
  "wlan_config =
     \<lparr>ota_password = OTA_PASSWORD, router_ssid = ROUTER_SSID,
      router_password = ROUTER_PASSWD, product_name = PRODUCT_NAME,
      wifi_retry_timeout_count = MAX_NUM_OF_WIFI_SSID_TRIAL_TIMEOUT_IN_500MS,
      static_ip_address = G_ownStaticIP, gateway_ip_address = G_gatewayIP,
      subnet_mask = G_maskIP\<rparr>"

subsection \<open>How the header declares its symbols\<close>

text \<open>
  What decides whether a symbol can change at run time is the way the header declares
  it. A \<open>#define\<close> is replaced by its literal wherever it is used, and a literal cannot
  be assigned to; an object declared \<open>const\<close> cannot be assigned to either; an object
  declared without \<open>const\<close> can. The header uses the first two only.
\<close>

datatype storage = Macro_literal | Const_object | Object

type_synonym symbol_decl = "string \<times> storage \<times> setting"

text \<open>
  The header's eight definitions once more, in source order, each with the way it is
  declared: lines 3 to 9 are \<open>#define\<close>s, lines 10 to 12 are \<open>const IPAddress\<close> objects.
\<close>

definition wlan_settings_decls :: "symbol_decl list" where
  "wlan_settings_decls =
    [(''OTA_PASSWORD'', Macro_literal, StringLiteral OTA_PASSWORD),
     (''ROUTER_SSID'', Macro_literal, StringLiteral ROUTER_SSID),
     (''ROUTER_PASSWD'', Macro_literal, StringLiteral ROUTER_PASSWD),
     (''PRODUCT_NAME'', Macro_literal, StringLiteral PRODUCT_NAME),
     (''MAX_NUM_OF_WIFI_SSID_TRIAL_TIMEOUT_IN_500MS'', Macro_literal,
        IntLiteral MAX_NUM_OF_WIFI_SSID_TRIAL_TIMEOUT_IN_500MS),
     (''G_ownStaticIP'', Const_object, Address G_ownStaticIP),
     (''G_gatewayIP'', Const_object, Address G_gatewayIP),
     (''G_maskIP'', Const_object, Address G_maskIP)]"

subsection \<open>Programs that access the symbols\<close>

text \<open>
  Modelled from the spec: the callers of the header (the WiFi and OTA routines) are not
  among the sources. The spec says of them that the values are "never mutated at
  runtime" and "exposed read-only to all callers". So that this is a property to prove
  and not a choice of the model, a caller here may contain reads and assignments alike;
  the compiler checks each access against the symbol's declaration, and a program runs
  only if every access of it passed. At run time nothing protects the store: an
  assignment that was compiled is carried out.
\<close>

type_synonym store = "(string \<times> setting) list"

definition initial_store :: "symbol_decl list \<Rightarrow> store" where
  "initial_store h = map (\<lambda>(n, q, v). (n, v)) h"

datatype access = Read string | Write string setting

fun is_read :: "access \<Rightarrow> bool" where
  "is_read (Read n) = True"
| "is_read (Write n v) = False"

text \<open>
  The compile-time check. A read needs a declared symbol. An assignment needs a symbol
  declared as an object without \<open>const\<close>, and a value of the symbol's type.
\<close>

fun well_formed :: "symbol_decl list \<Rightarrow> access \<Rightarrow> bool" where
  "well_formed h (Read n) = (map_of h n \<noteq> None)"
| "well_formed h (Write n v) =
     (case map_of h n of
        None \<Rightarrow> False
      | Some (q, v0) \<Rightarrow> q = Object \<and> kind_of v = kind_of v0)"

text \<open>One access at run time: the values it reads and the store it leaves.\<close>

fun step :: "access \<Rightarrow> store \<Rightarrow> setting list \<times> store" where
  "step (Read n) s = ((case map_of s n of None \<Rightarrow> [] | Some v \<Rightarrow> [v]), s)"
| "step (Write n v) s = ([], map (\<lambda>(k, w). if k = n then (k, v) else (k, w)) s)"

fun steps :: "access list \<Rightarrow> store \<Rightarrow> setting list \<times> store" where
  "steps [] s = ([], s)"
| "steps (a # as) s =
     (case step a s of (vs, s') \<Rightarrow> (case steps as s' of (ws, s'') \<Rightarrow> (vs @ ws, s'')))"

text \<open>
  A program against a header: \<open>None\<close> when the compiler refuses it, otherwise the values
  it reads, in order, and the final store.
\<close>

definition run_program ::
    "symbol_decl list \<Rightarrow> access list \<Rightarrow> (setting list \<times> store) option" where
  "run_program h p =
     (if list_all (well_formed h) p then Some (steps p (initial_store h)) else None)"

text \<open>Reading the configuration: every symbol of the header once, in order.\<close>

definition read_config :: "access list" where
  "read_config = map Read (map fst wlan_settings_h)"

subsection \<open>Validation when the configuration is loaded\<close>

text \<open>
  Modelled from the spec: the header has no validation code; the spec describes the one
  it finds plausible: "reject malformed IP octets (out of 0-255 range) or a zero/negative
  retry-timeout count, surfacing a configuration error before attempting any network
  operation". Out-of-range octets exist only before the conversion to \<open>uint8_t\<close>, so
  the loader takes the values as they are written, each octet an integer, and returns
  either the error or the typed structure; a consumer gets a configuration only from a
  successful load.
\<close>

type_synonym raw_ip = "int \<times> int \<times> int \<times> int"

record raw_config =
  raw_ota_password :: string
  raw_router_ssid :: string
  raw_router_password :: string
  raw_product_name :: string
  raw_retry_timeout_count :: int
  raw_static_ip :: raw_ip
  raw_gateway_ip :: raw_ip
  raw_subnet_mask :: raw_ip

datatype config_error = Configuration_error

fun raw_octets :: "raw_ip \<Rightarrow> int list" where
  "raw_octets (a, b, c, d) = [a, b, c, d]"

text \<open>The C++ conversion of the four arguments to \<open>uint8_t\<close>: reduction modulo 256.\<close>

fun to_IPAddress :: "raw_ip \<Rightarrow> IPAddress" where
  "to_IPAddress (a, b, c, d) =
     IPAddress (word_of_int a) (word_of_int b) (word_of_int c) (word_of_int d)"

definition all_raw_octets :: "raw_config \<Rightarrow> int list" where
  "all_raw_octets r =
     raw_octets (raw_static_ip r) @ raw_octets (raw_gateway_ip r) @
     raw_octets (raw_subnet_mask r)"

text \<open>
  Modelled from the spec: the validating load described above (the header itself has no
  such function).
\<close>

definition load_config :: "raw_config \<Rightarrow> config_error + config" where
  "load_config r =
     (if list_ex (\<lambda>n. \<not> valid_octet n) (all_raw_octets r) then Inl Configuration_error
      else if raw_retry_timeout_count r \<le> 0 then Inl Configuration_error
      else Inr \<lparr>ota_password = raw_ota_password r, router_ssid = raw_router_ssid r,
                router_password = raw_router_password r,
                product_name = raw_product_name r,
                wifi_retry_timeout_count = raw_retry_timeout_count r,
                static_ip_address = to_IPAddress (raw_static_ip r),
                gateway_ip_address = to_IPAddress (raw_gateway_ip r),
                subnet_mask = to_IPAddress (raw_subnet_mask r)\<rparr>)"

text \<open>The header's values as its text writes them: the constructor arguments as integers.\<close>

definition wlan_raw_config :: raw_config where
  "wlan_raw_config =
     \<lparr>raw_ota_password = OTA_PASSWORD, raw_router_ssid = ROUTER_SSID,
      raw_router_password = ROUTER_PASSWD, raw_product_name = PRODUCT_NAME,
      raw_retry_timeout_count = MAX_NUM_OF_WIFI_SSID_TRIAL_TIMEOUT_IN_500MS,
      raw_static_ip = (192, 168, 8, 205), raw_gateway_ip = (192, 168, 8, 1),
      raw_subnet_mask = (255, 255, 0, 0)\<rparr>"

section \<open>Properties of the constants\<close>

text \<open>Every address of the type has four octets in range: the type leaves no other.\<close>

lemma valid_ip_all: "valid_ip ip"
proof -
  have "valid_octet (uint w)" for w :: "8 word"
    using uint_bounded [of w] by (simp add: valid_octet_def)
  then show ?thesis
    by (simp add: valid_ip_def octets_def)
qed

text \<open>
  C1. The retry count times 500 ms is 5000 ms. The annotation on the same source line
  says 6 sec, that is 6000 ms; the product does not reach it.
\<close>

theorem wifi_trial_timeout_is_5000_not_annotated:
  "wifi_trial_timeout_ms = 5000 \<and> wifi_trial_timeout_ms \<noteq> annotated_timeout_ms"
  by (simp add: wifi_trial_timeout_ms_def MAX_NUM_OF_WIFI_SSID_TRIAL_TIMEOUT_IN_500MS_def
      trial_unit_ms_def annotated_timeout_ms_def)

text \<open>
  C2. Each of the three address constants decomposes into exactly four octets, each an
  integer between 0 and 255; the octets are the numbers written in the source, so the
  conversion to \<open>uint8_t\<close> truncates none of them.
\<close>

theorem ip_constants_four_octets_in_range:
  "map octets [G_ownStaticIP, G_gatewayIP, G_maskIP] =
     [[192, 168, 8, 205], [192, 168, 8, 1], [255, 255, 0, 0]] \<and>
   list_all valid_ip [G_ownStaticIP, G_gatewayIP, G_maskIP]"
  by (simp add: G_ownStaticIP_def G_gatewayIP_def G_maskIP_def octets_def valid_ip_def
      valid_octet_def)

text \<open>
  C3. The retry count is a positive integer, hence also a non-negative one.
\<close>

theorem retry_count_positive:
  "0 < MAX_NUM_OF_WIFI_SSID_TRIAL_TIMEOUT_IN_500MS \<and>
   0 \<le> MAX_NUM_OF_WIFI_SSID_TRIAL_TIMEOUT_IN_500MS"
  by (simp add: MAX_NUM_OF_WIFI_SSID_TRIAL_TIMEOUT_IN_500MS_def)

text \<open>
  C5. Each of the four string constants is non-empty. The header has no switch for the
  OTA or WiFi feature, and the strings are non-empty whatever a consumer enables; in
  particular they are when the feature is enabled.
\<close>

theorem string_constants_nonempty:
  "OTA_PASSWORD \<noteq> [] \<and> ROUTER_SSID \<noteq> [] \<and> ROUTER_PASSWD \<noteq> [] \<and> PRODUCT_NAME \<noteq> []"
  by (simp add: OTA_PASSWORD_def ROUTER_SSID_def ROUTER_PASSWD_def PRODUCT_NAME_def)

text \<open>
  C10. The device's static address differs from the gateway's: the fourth octets are
  205 and 1, the first three agree.
\<close>

theorem own_ip_differs_from_gateway:
  "G_ownStaticIP \<noteq> G_gatewayIP \<and>
   fourth_octet G_ownStaticIP = 205 \<and> fourth_octet G_gatewayIP = 1 \<and>
   fourth_octet G_ownStaticIP \<noteq> fourth_octet G_gatewayIP \<and>
   take 3 (octets G_ownStaticIP) = take 3 (octets G_gatewayIP)"
  by (simp add: G_ownStaticIP_def G_gatewayIP_def octets_def)

subsection \<open>The header's symbols\<close>

text \<open>
  C6. The header defines exactly eight symbols, pairwise distinct: the OTA password, the
  router SSID, the router password and the product name (string literals), the WiFi
  retry timeout count (an integer literal), and the device address, the gateway address
  and the subnet mask (address objects). There is no ninth.
\<close>

theorem header_defines_exactly_eight_fields:
  "map fst wlan_settings_h =
     [''OTA_PASSWORD'', ''ROUTER_SSID'', ''ROUTER_PASSWD'', ''PRODUCT_NAME'',
      ''MAX_NUM_OF_WIFI_SSID_TRIAL_TIMEOUT_IN_500MS'',
      ''G_ownStaticIP'', ''G_gatewayIP'', ''G_maskIP''] \<and>
   map (kind_of \<circ> snd) wlan_settings_h =
     [KString, KString, KString, KString, KInteger, KAddress, KAddress, KAddress] \<and>
   distinct (map fst wlan_settings_h) \<and> length wlan_settings_h = 8"
  by (simp add: wlan_settings_h_def)

subsection \<open>The subnet\<close>

text \<open>A prefix mask has its one bits on top: bit \<open>i\<close> is set exactly from \<open>32 - n\<close> up.\<close>

lemma prefix_mask_bits:
  "n \<le> 32 \<Longrightarrow> i < 32 \<Longrightarrow> bit (prefix_mask n) i \<longleftrightarrow> 32 - n \<le> i"
  by (auto simp add: prefix_mask_def bit_push_bit_iff bit_mask_iff)

lemma prefix_mask_16: "prefix_mask 16 = 0xFFFF0000"
  by (simp add: prefix_mask_def mask_eq_exp_minus_1)

lemma G_maskIP_u32: "network_order_u32 G_maskIP = 0xFFFF0000"
  by (simp add: network_order_u32_def G_maskIP_def)

lemma G_maskIP_contiguous: "contiguous_netmask (network_order_u32 G_maskIP)"
  unfolding contiguous_netmask_def list_ex_iff
  by (rule bexI [of _ 16]) (simp_all add: G_maskIP_u32 prefix_mask_16)

text \<open>
  C9. The mask 255.255.0.0, as a 32-bit value, is sixteen one bits followed by sixteen
  zero bits, so it is a contiguous netmask; and the device address and the gateway
  address have the same network part under it, 192.168.0.0, both as 32-bit values and
  octet by octet.
\<close>

theorem mask_contiguous_and_same_subnet:
  "contiguous_netmask (network_order_u32 G_maskIP) \<and>
   network_order_u32 G_maskIP = prefix_mask 16 \<and>
   network_order_u32 G_maskIP = 0xFFFF0000 \<and>
   network_order_u32 G_ownStaticIP AND network_order_u32 G_maskIP =
     network_order_u32 (IPAddress 192 168 0 0) \<and>
   network_order_u32 G_gatewayIP AND network_order_u32 G_maskIP =
     network_order_u32 (IPAddress 192 168 0 0) \<and>
   network_of G_ownStaticIP G_maskIP = IPAddress 192 168 0 0 \<and>
   network_of G_gatewayIP G_maskIP = IPAddress 192 168 0 0"
proof -
  have "network_order_u32 G_ownStaticIP AND network_order_u32 G_maskIP =
      network_order_u32 (IPAddress 192 168 0 0)"
    by (simp add: network_order_u32_def G_ownStaticIP_def G_maskIP_def)
  moreover have "network_order_u32 G_gatewayIP AND network_order_u32 G_maskIP =
      network_order_u32 (IPAddress 192 168 0 0)"
    by (simp add: network_order_u32_def G_gatewayIP_def G_maskIP_def)
  moreover have "network_of G_ownStaticIP G_maskIP = IPAddress 192 168 0 0"
    by (simp add: network_of_def G_ownStaticIP_def G_maskIP_def)
  moreover have "network_of G_gatewayIP G_maskIP = IPAddress 192 168 0 0"
    by (simp add: network_of_def G_gatewayIP_def G_maskIP_def)
  ultimately show ?thesis
    using G_maskIP_contiguous by (simp add: G_maskIP_u32 prefix_mask_16)
qed

section \<open>Properties of the configuration structure\<close>

text \<open>
  C4. Loading reports a configuration error exactly when some octet of the three
  addresses is outside 0..255 or the retry count is not positive; and loading the
  header's own values reports none: it yields the configuration structure, whose
  addresses are the header's three address constants.
\<close>

theorem load_config_error_iff_and_header_loads:
  "(isl (load_config r) \<longleftrightarrow>
      (\<exists>n \<in> set (all_raw_octets r). n < 0 \<or> 255 < n) \<or> raw_retry_timeout_count r \<le> 0) \<and>
   load_config wlan_raw_config = Inr wlan_config"
proof
  show "isl (load_config r) \<longleftrightarrow>
      (\<exists>n \<in> set (all_raw_octets r). n < 0 \<or> 255 < n) \<or> raw_retry_timeout_count r \<le> 0"
  proof -
    have "\<not> valid_octet n \<longleftrightarrow> n < 0 \<or> 255 < n" for n
      by (auto simp add: valid_octet_def)
    then show ?thesis
      by (simp add: load_config_def list_ex_iff)
  qed
  show "load_config wlan_raw_config = Inr wlan_config"
    by (simp add: load_config_def wlan_raw_config_def wlan_config_def all_raw_octets_def
        valid_octet_def MAX_NUM_OF_WIFI_SSID_TRIAL_TIMEOUT_IN_500MS_def
        G_ownStaticIP_def G_gatewayIP_def G_maskIP_def)
qed

section \<open>Read-only access\<close>

text \<open>The declarations carry the values of the header's list of definitions.\<close>

lemma decls_values: "initial_store wlan_settings_decls = wlan_settings_h"
  by (simp add: initial_store_def wlan_settings_decls_def wlan_settings_h_def)

text \<open>A header that declares no plain object admits no assignment.\<close>

lemma no_object_no_write:
  assumes "list_all (\<lambda>(n, q, v). q \<noteq> Object) h"
  shows "\<not> well_formed h (Write n v)"
proof (cases "map_of h n")
  case None
  then show ?thesis by simp
next
  case (Some d)
  obtain q v0 where d: "d = (q, v0)" by (cases d)
  with Some have "(n, q, v0) \<in> set h" by (simp add: map_of_SomeD)
  with assms have "q \<noteq> Object" by (auto simp add: list_all_iff)
  with Some d show ?thesis by simp
qed

lemma wlan_no_object: "list_all (\<lambda>(n, q, v). q \<noteq> Object) wlan_settings_decls"
  by (simp add: wlan_settings_decls_def)

lemma wlan_well_formed_is_read: "well_formed wlan_settings_decls a \<Longrightarrow> is_read a"
  using no_object_no_write [OF wlan_no_object] by (cases a) auto

lemma wlan_program_reads:
  "list_all (well_formed wlan_settings_decls) p \<Longrightarrow> list_all is_read p"
  by (auto simp add: list_all_iff dest: wlan_well_formed_is_read)

lemma steps_append:
  "steps (p @ q) s =
     (fst (steps p s) @ fst (steps q (snd (steps p s))), snd (steps q (snd (steps p s))))"
  by (induction p arbitrary: s) (simp_all add: split_beta)

lemma steps_reads_store: "list_all is_read p \<Longrightarrow> snd (steps p s) = s"
proof (induction p)
  case Nil
  show ?case by simp
next
  case (Cons a p)
  then obtain n where "a = Read n" by (cases a) simp_all
  with Cons show ?case by (simp add: split_beta)
qed

lemma read_config_is_read: "list_all is_read read_config"
  by (simp add: read_config_def list_all_iff image_iff)

lemma read_config_values:
  "fst (steps read_config wlan_settings_h) = map snd wlan_settings_h"
  by (simp add: read_config_def wlan_settings_h_def)

text \<open>
  The declarations matter. Had the mask been declared without \<open>const\<close>, a caller could
  assign to it, the program would compile, and two reads around the assignment would
  return different values and leave a different store.
\<close>

lemma plain_object_is_mutated:
  "run_program [(''G_maskIP'', Object, Address G_maskIP)]
     [Read ''G_maskIP'', Write ''G_maskIP'' (Address (IPAddress 255 255 255 0)),
      Read ''G_maskIP''] =
   Some ([Address G_maskIP, Address (IPAddress 255 255 255 0)],
         [(''G_maskIP'', Address (IPAddress 255 255 255 0))])"
  by (simp add: run_program_def initial_store_def)

lemma plain_object_reads_differ: "Address G_maskIP \<noteq> Address (IPAddress 255 255 255 0)"
  by (simp add: G_maskIP_def)

text \<open>
  C7. Reading is deterministic and idempotent. Take any program that compiles against
  the header and that reads the whole configuration, then does anything it likes, then
  reads the whole configuration again. Both readings return the same eight values,
  which are the values the header defines, and the store at the end is the store the
  header populated: nothing the program did in between changed a value.
\<close>

theorem reading_twice_yields_identical_values:
  "run_program wlan_settings_decls (read_config @ q @ read_config) = Some (vs, s) \<Longrightarrow>
     take 8 vs = map snd wlan_settings_h \<and>
     drop (length vs - 8) vs = map snd wlan_settings_h \<and>
     s = wlan_settings_h"
proof -
  assume r: "run_program wlan_settings_decls (read_config @ q @ read_config) = Some (vs, s)"
  then have wf: "list_all (well_formed wlan_settings_decls) (read_config @ q @ read_config)"
    by (simp add: run_program_def split: if_splits)
  then have q: "list_all is_read q"
    by (simp add: wlan_program_reads)
  let ?H = "map snd wlan_settings_h"
  let ?m = "fst (steps q wlan_settings_h)"
  from r wf have "(vs, s) = steps (read_config @ q @ read_config) wlan_settings_h"
    by (simp add: run_program_def decls_values)
  then have vs: "vs = ?H @ ?m @ ?H" and s: "s = wlan_settings_h"
    by (simp_all add: steps_append steps_reads_store read_config_is_read q
        read_config_values)
  have len: "length ?H = 8" by (simp add: wlan_settings_h_def)
  from vs len have "take 8 vs = ?H" by simp
  moreover from vs len have "drop (length vs - 8) vs = ?H" by simp
  ultimately show ?thesis using s by simp
qed

theorem reading_twice_yields_identical_values_witness:
  "run_program wlan_settings_decls (read_config @ [Read ''PRODUCT_NAME''] @ read_config) =
     Some (map snd wlan_settings_h @ [StringLiteral PRODUCT_NAME] @ map snd wlan_settings_h,
           wlan_settings_h) \<and>
   take 8 (map snd wlan_settings_h @ [StringLiteral PRODUCT_NAME] @ map snd wlan_settings_h) =
     map snd wlan_settings_h \<and>
   drop 9 (map snd wlan_settings_h @ [StringLiteral PRODUCT_NAME] @ map snd wlan_settings_h) =
     map snd wlan_settings_h"
proof -
  have r: "run_program wlan_settings_decls
      (read_config @ [Read ''PRODUCT_NAME''] @ read_config) =
     Some (map snd wlan_settings_h @ [StringLiteral PRODUCT_NAME] @ map snd wlan_settings_h,
           wlan_settings_h)"
    by (simp add: run_program_def initial_store_def wlan_settings_decls_def
        wlan_settings_h_def read_config_def)
  from reading_twice_yields_identical_values [OF r] r show ?thesis
    by (simp add: wlan_settings_h_def)
qed

text \<open>
  C8. The configuration is read-only for every caller. No assignment to a symbol of the
  header compiles, whatever the symbol and the value; and after any program that does
  compile, the store is the one populated at compile time, so each of the eight symbols
  still holds the value the header defines.
\<close>

theorem interface_preserves_configuration:
  "\<not> well_formed wlan_settings_decls (Write n v) \<and>
   (run_program wlan_settings_decls p = Some (vs, s) \<longrightarrow>
      s = wlan_settings_h \<and>
      map (map_of s \<circ> fst) wlan_settings_h = map (Some \<circ> snd) wlan_settings_h)"
proof (intro conjI impI)
  show "\<not> well_formed wlan_settings_decls (Write n v)"
    by (rule no_object_no_write [OF wlan_no_object])
next
  assume r: "run_program wlan_settings_decls p = Some (vs, s)"
  then have wf: "list_all (well_formed wlan_settings_decls) p"
    by (simp add: run_program_def split: if_splits)
  with r have "s = snd (steps p wlan_settings_h)"
    by (simp add: run_program_def decls_values)
  with wf show "s = wlan_settings_h"
    by (simp add: steps_reads_store wlan_program_reads)
  then show "map (map_of s \<circ> fst) wlan_settings_h = map (Some \<circ> snd) wlan_settings_h"
    by (simp add: wlan_settings_h_def)
qed

theorem interface_preserves_configuration_witness:
  "run_program wlan_settings_decls [Read ''G_maskIP'', Read ''OTA_PASSWORD''] =
     Some ([Address G_maskIP, StringLiteral OTA_PASSWORD], wlan_settings_h) \<and>
   \<not> well_formed wlan_settings_decls
       (Write ''G_maskIP'' (Address (IPAddress 255 255 255 0))) \<and>
   map (map_of wlan_settings_h \<circ> fst) wlan_settings_h = map (Some \<circ> snd) wlan_settings_h"
proof -
  have r: "run_program wlan_settings_decls [Read ''G_maskIP'', Read ''OTA_PASSWORD''] =
     Some ([Address G_maskIP, StringLiteral OTA_PASSWORD], wlan_settings_h)"
    by (simp add: run_program_def initial_store_def wlan_settings_decls_def
        wlan_settings_h_def)
  from interface_preserves_configuration [of "''G_maskIP''"
      "Address (IPAddress 255 255 255 0)" "[Read ''G_maskIP'', Read ''OTA_PASSWORD'']"
      "[Address G_maskIP, StringLiteral OTA_PASSWORD]" wlan_settings_h] r
  show ?thesis by simp
qed

end
